theory Spec2Isabelle
  imports Main
begin

section \<open>Common data\<close>

text \<open>
  Python \<open>bytes\<close> and \<open>str\<close> values are both kept as lists of characters; the
  \<open>encode('latin')\<close> and \<open>decode('latin')\<close> calls of the source are the identity on
  them. A \<open>str\<close> that \<open>decode('utf-8')\<close> returns is kept as its UTF-8 bytes.
\<close>

type_synonym bytes = string

text \<open>The exceptions the modelled code can raise.\<close>

datatype py_exception =
  KeyError | IndexError | ValueError | TypeError | AttributeError
  | UnboundLocalError | FileNotFoundError | UnicodeDecodeError | UnicodeEncodeError
  | OverflowError | MemoryError

text \<open>The values handed to \<open>json.dumps\<close>.\<close>

datatype json = JStr string | JInt int | JList "json list" | JObj "(string \<times> json) list"

section \<open>The license ledger (server/aux_functions.py)\<close>

text \<open>
  One entry of \<open>licenses.json\<close>. \<open>licenseValid\<close> tests whether the keys \<open>views\<close>
  and \<open>time\<close> are present, so these two fields are optional; \<open>None\<close> is an absent key.
  \<open>time\<close> is a POSIX timestamp; it is counted here in whole microseconds, the
  resolution of \<open>datetime\<close>.
\<close>

record user =
  username :: string
  passwords :: "(string \<times> bytes) list"
  views :: "int option"
  time :: "int option"
  cert :: bytes

text \<open>
  The content of \<open>licenses.json\<close> as \<open>server.getFile\<close> returns it: \<open>None\<close> when the
  file is missing or empty, the decoded list of users otherwise.
\<close>

type_synonym licenses_file = "user list option"

text \<open>
  The clock of the host: \<open>now\<close> is what \<open>datetime.datetime.now()\<close> returns, a naive
  date-time on the local wall clock (microseconds since 1970-01-01 00:00 of that wall
  clock); \<open>utcoffset\<close> is local time minus UTC.
\<close>

record clock =
  now :: int
  utcoffset :: int

definition LICENSE_VIEWS :: int where
  "LICENSE_VIEWS = 4"

definition LICENSE_SPAN :: int where
  "LICENSE_SPAN = 5 * 60 * 1000000"

text \<open>
  \<open>d.timestamp()\<close> of a naive date-time reads it as local time;
  \<open>datetime.utcfromtimestamp\<close> returns the naive date-time of the UTC wall clock.
\<close>

definition timestamp :: "clock \<Rightarrow> int \<Rightarrow> int" where
  "timestamp c d = d - utcoffset c"

definition utcfromtimestamp :: "int \<Rightarrow> int" where
  "utcfromtimestamp ts = ts"

text \<open>
  The collaborators whose code is not part of the repository's files: the
  \<open>CryptoFunctions\<close>, \<open>PKI\<close> and \<open>CitizenCard\<close> classes, the \<open>cryptography\<close>,
  \<open>json\<close> and \<open>binascii\<close> libraries, the \<open>licenses\<close> module and the media files on
  disk. Keys and certificates are kept as their serialised bytes.
  \<open>validateSignature env signcert message sign\<close> stands for
  \<open>CitizenCard.validateSignature\<close> on the public key of the certificate read from
  \<open>signcert\<close>, and \<open>cert_der env signcert\<close> for the DER bytes of that certificate.
  \<open>load_pem_public_key\<close> gives \<open>None\<close> for bytes that hold no key, \<open>exchange\<close>
  raises for a peer key that is no Diffie-Hellman key of the private key's group,
  \<open>read_file\<close> gives \<open>None\<close> for a file that cannot be opened, and
  \<open>update_license\<close>, the function of the \<open>licenses\<close> module that \<open>do_download\<close>
  calls, works on the license file and may raise. Two fields describe the host:
  \<open>bytes_error n\<close> is the exception (\<open>OverflowError\<close> or \<open>MemoryError\<close>) that
  allocating a bytes object of \<open>n\<close> zero bytes raises there, if any, and
  \<open>stdout_encodes s\<close> tells whether \<open>print\<close> can encode the text \<open>s\<close> for the
  standard output. The other collaborators are taken to return a value on every
  argument.
\<close>

record collaborators =
  digests :: "string list"
  create_digest :: "bytes \<Rightarrow> string option \<Rightarrow> bytes"
  symetric_encryption ::
    "bytes option \<Rightarrow> bytes \<Rightarrow> string option \<Rightarrow> string option \<Rightarrow> string option \<Rightarrow> bytes"
  validateCerts :: "bytes \<Rightarrow> bytes list \<Rightarrow> bool"
  validateSignature :: "bytes \<Rightarrow> bytes \<Rightarrow> bytes \<Rightarrow> bool"
  cert_der :: "bytes \<Rightarrow> bytes"
  load_pem_public_key :: "bytes \<Rightarrow> bytes option"
  exchange :: "bytes \<Rightarrow> bytes \<Rightarrow> py_exception + bytes"
  public_bytes :: "bytes \<Rightarrow> bytes"
  json_dumps :: "json \<Rightarrow> bytes"
  b2a_base64 :: "bytes \<Rightarrow> string"
  update_license :: "string \<Rightarrow> nat \<Rightarrow> licenses_file \<Rightarrow> py_exception + licenses_file"
  read_file :: "string \<Rightarrow> bytes option"
  bytes_error :: "nat \<Rightarrow> py_exception option"
  stdout_encodes :: "string \<Rightarrow> bool"

text \<open>\<open>users = [] if not usersfile else json.loads(usersfile)\<close>\<close>

definition load_users :: "licenses_file \<Rightarrow> user list" where
  "load_users f = (case f of None \<Rightarrow> [] | Some users \<Rightarrow> users)"

text \<open>\<open>for u in users: if u['username'] == username: return u\<close>\<close>

fun find_user :: "user list \<Rightarrow> string \<Rightarrow> user option" where
  "find_user [] uname = None"
| "find_user (u # users) uname = (if username u = uname then Some u else find_user users uname)"

text \<open>The same loop in \<open>updateLicense\<close>, which also counts \<open>userindex\<close>.\<close>

fun find_user_index :: "user list \<Rightarrow> string \<Rightarrow> nat \<Rightarrow> (user \<times> nat) option" where
  "find_user_index [] uname userindex = None"
| "find_user_index (u # users) uname userindex =
     (if username u = uname then Some (u, userindex)
      else find_user_index users uname (userindex + 1))"

text \<open>\<open>d[k] = v\<close> on a dictionary kept in insertion order.\<close>

fun dict_set :: "('k \<times> 'v) list \<Rightarrow> 'k \<Rightarrow> 'v \<Rightarrow> ('k \<times> 'v) list" where
  "dict_set [] k v = [(k, v)]"
| "dict_set ((k', v') # d) k v = (if k' = k then (k, v) # d else (k', v') # dict_set d k v)"

text \<open>
  \<open>for digest in CryptoFunctions.digests:
      user['passwords'][digest] = CryptoFunctions.create_digest(password, digest)\<close>
\<close>

fun create_digests ::
  "collaborators \<Rightarrow> bytes \<Rightarrow> string list \<Rightarrow> (string \<times> bytes) list \<Rightarrow> (string \<times> bytes) list"
where
  "create_digests env password [] d = d"
| "create_digests env password (digest # ds) d =
     create_digests env password ds (dict_set d digest (create_digest env password (Some digest)))"

text \<open>
  \<open>register\<close> returns the pair \<open>(user, errorMessage)\<close>; the model returns with it the
  content of \<open>licenses.json\<close> after the call.
\<close>

definition register ::
  "collaborators \<Rightarrow> clock \<Rightarrow> licenses_file \<Rightarrow> string \<Rightarrow> string \<Rightarrow> bytes \<Rightarrow> bytes \<Rightarrow> bytes list
    \<Rightarrow> (user option \<times> string) \<times> licenses_file"
where
  "register env c f uname password signature signcert intermedium =
     (if uname = [] \<or> password = [] then ((None, ''There are attributes missing!''), f)
      else if \<not> validateCerts env signcert intermedium
        then ((None, ''The signature certificate is not valid!''), f)
      else if \<not> validateSignature env signcert (uname @ password) signature
        then ((None, ''The signature is not valid!''), f)
      else
        let users = load_users f in
        (case find_user users uname of
           Some u \<Rightarrow>
             ((None, ''The username given is already being used! Please choose other.''), f)
         | None \<Rightarrow>
             let u = \<lparr> username = uname,
                       passwords = create_digests env password (digests env) [],
                       views = Some LICENSE_VIEWS,
                       time = Some (timestamp c (now c + LICENSE_SPAN)),
                       cert = cert_der env signcert \<rparr>
             in ((Some u, []), Some (users @ [u]))))"

definition getLicense :: "licenses_file \<Rightarrow> string \<Rightarrow> user option" where
  "getLicense f uname = find_user (load_users f) uname"

text \<open>
  \<open>licenseValid\<close>: the attributes \<open>views\<close> and \<open>time\<close> must be present and truthy
  (non-zero), the expiry read by \<open>utcfromtimestamp\<close> must not be before
  \<open>datetime.now()\<close>, and \<open>views\<close> must be greater than zero.
\<close>

definition licenseValid :: "clock \<Rightarrow> licenses_file \<Rightarrow> string \<Rightarrow> bool" where
  "licenseValid c f uname =
     (case getLicense f uname of
        None \<Rightarrow> False
      | Some license \<Rightarrow>
          (case (views license, time license) of
             (Some v, Some t) \<Rightarrow>
               if v = 0 \<or> t = 0 then False
               else if utcfromtimestamp t < now c then False
               else if v \<le> 0 then False
               else True
           | _ \<Rightarrow> False))"

text \<open>
  \<open>updateLicense\<close> returns the user (or \<open>None\<close>); the model returns with it the
  content of \<open>licenses.json\<close> after the call. \<open>user['views'] - 1\<close> raises \<open>KeyError\<close>
  when the key is absent.
\<close>

definition updateLicense ::
  "clock \<Rightarrow> licenses_file \<Rightarrow> string \<Rightarrow> bool \<Rightarrow> bool \<Rightarrow> py_exception + (user option \<times> licenses_file)"
where
  "updateLicense c f uname renew view =
     (if uname = [] then Inr (None, f)
      else
        let users = load_users f in
        (case find_user_index users uname 0 of
           None \<Rightarrow> Inr (None, f)
         | Some (u, userindex) \<Rightarrow>
             (if renew then
                let u' = u\<lparr> views := Some LICENSE_VIEWS,
                            time := Some (timestamp c (now c + LICENSE_SPAN)) \<rparr>
                in Inr (Some u', Some (users[userindex := u']))
              else if view then
                (case views u of
                   None \<Rightarrow> Inl KeyError
                 | Some v \<Rightarrow>
                     let u' = u\<lparr> views := Some (v - 1) \<rparr>
                     in Inr (Some u', Some (users[userindex := u'])))
              else Inr (Some u, Some (users[userindex := u])))))"

text \<open>
  A sequence of \<open>n\<close> calls \<open>updateLicense(server, username, view=True)\<close>, each on the
  file the previous one wrote.
\<close>

fun view_times :: "nat \<Rightarrow> clock \<Rightarrow> licenses_file \<Rightarrow> string \<Rightarrow> py_exception + licenses_file" where
  "view_times 0 c f uname = Inr f"
| "view_times (Suc n) c f uname =
     (case updateLicense c f uname False True of
        Inl e \<Rightarrow> Inl e
      | Inr (u, f') \<Rightarrow> view_times n c f' uname)"

section \<open>The media server (server/server.py)\<close>

record media =
  name :: string
  album :: string
  description :: string
  duration :: nat
  file_name :: string
  file_size :: int

definition CATALOG :: "(string \<times> media) list" where
  "CATALOG =
     [(''898a08080d1840793122b7e118b27a95d117ebce'',
       \<lparr> name = ''Sunny Afternoon - Upbeat Ukulele Background Music'',
         album = ''Upbeat Ukulele Background Music'',
         description = ''Nicolai Heidlas Music: http://soundcloud.com/nicolai-heidlas'',
         duration = 3 * 60 + 33,
         file_name = ''898a08080d1840793122b7e118b27a95d117ebce.mp3'',
         file_size = 3407202 \<rparr>)]"

definition CATALOG_BASE :: string where
  "CATALOG_BASE = ''catalog''"

definition CHUNK_SIZE :: int where
  "CHUNK_SIZE = 1024 * 4"

text \<open>
  An entry of \<open>self.sessions\<close>: the dictionary with the keys \<open>public_key\<close>,
  \<open>private_key\<close> and \<open>shared_key\<close>.
\<close>

record session =
  session_public_key :: bytes
  session_private_key :: bytes
  session_shared_key :: bytes

text \<open>
  The attributes of \<open>MediaServer\<close>. \<open>__init__\<close> sets every one of them but
  \<open>username\<close>, which only \<open>new_license\<close> assigns: \<open>self_username = None\<close> is the
  attribute not being there.
\<close>

record server =
  parameters :: bytes
  shared_key :: "bytes option"
  CIPHER :: "string option"
  DIGEST :: "string option"
  CIPHER_MODE :: "string option"
  KEY :: "bytes option"
  sessions :: "bytes \<rightharpoonup> session"
  self_username :: "string option"

text \<open>What a handler reads of the request: its path and \<open>request.args\<close>.\<close>

record request =
  path :: bytes
  args :: "(bytes \<rightharpoonup> bytes list) option"

text \<open>What a handler writes on the request: the response code and the response headers.\<close>

record response =
  code :: nat
  responseHeaders :: "(bytes \<times> bytes) list"

definition setResponseCode :: "response \<Rightarrow> nat \<Rightarrow> response" where
  "setResponseCode rsp n = rsp\<lparr> code := n \<rparr>"

definition addRawHeader :: "response \<Rightarrow> bytes \<Rightarrow> bytes \<Rightarrow> response" where
  "addRawHeader rsp k v = rsp\<lparr> responseHeaders := responseHeaders rsp @ [(k, v)] \<rparr>"

text \<open>The response of a request no handler has written on yet.\<close>

definition fresh_response :: response where
  "fresh_response = \<lparr> code = 200, responseHeaders = [] \<rparr>"

text \<open>
  \<open>math.ceil(a / b)\<close> for integers \<open>a\<close> and \<open>b > 0\<close>. The quotient of the source is a
  float; for the sizes of media files (below \<open>2 ^ 53\<close>) and the divisor 4096 it is exact.
\<close>

definition py_ceil_div :: "int \<Rightarrow> int \<Rightarrow> int" where
  "py_ceil_div a b = - ((- a) div b)"

text \<open>
  \<open>int(s)\<close> on a string: white space around, an optional sign, decimal digits with
  single underscores between them; \<open>None\<close> is \<open>ValueError\<close>.
\<close>

definition is_space :: "char \<Rightarrow> bool" where
  "is_space ch \<longleftrightarrow>
     List.member
       [CHR 0x09, CHR 0x0A, CHR 0x0B, CHR 0x0C, CHR 0x0D, CHR 0x1C, CHR 0x1D, CHR 0x1E,
        CHR 0x1F, CHR 0x20, CHR 0x85, CHR 0xA0] ch"

definition strip :: "string \<Rightarrow> string" where
  "strip s = dropWhile is_space (rev (dropWhile is_space (rev s)))"

definition digit_val :: "char \<Rightarrow> int option" where
  "digit_val ch =
     map_of
       [(CHR ''0'', 0), (CHR ''1'', 1), (CHR ''2'', 2), (CHR ''3'', 3), (CHR ''4'', 4),
        (CHR ''5'', 5), (CHR ''6'', 6), (CHR ''7'', 7), (CHR ''8'', 8), (CHR ''9'', 9)] ch"

fun digits_value :: "int \<Rightarrow> string \<Rightarrow> int option" where
  "digits_value acc [] = Some acc"
| "digits_value acc [ch] =
     (case digit_val ch of None \<Rightarrow> None | Some d \<Rightarrow> Some (acc * 10 + d))"
| "digits_value acc (ch # ch' # s) =
     (if ch = CHR ''_'' then
        (case digit_val ch' of None \<Rightarrow> None | Some d \<Rightarrow> digits_value (acc * 10 + d) s)
      else
        (case digit_val ch of None \<Rightarrow> None | Some d \<Rightarrow> digits_value (acc * 10 + d) (ch' # s)))"

definition py_digits :: "string \<Rightarrow> int option" where
  "py_digits s =
     (case s of
        [] \<Rightarrow> None
      | ch # s' \<Rightarrow> (case digit_val ch of None \<Rightarrow> None | Some d \<Rightarrow> digits_value d s'))"

definition py_int :: "string \<Rightarrow> int option" where
  "py_int s =
     (case strip s of
        [] \<Rightarrow> None
      | ch # s' \<Rightarrow>
          if ch = CHR ''-'' then map_option uminus (py_digits s')
          else if ch = CHR ''+'' then py_digits s'
          else py_digits (ch # s'))"

text \<open>
  The local variable \<open>chunk_id\<close> of \<open>do_download\<close> holds the bytes of the request
  until \<open>int\<close> has parsed them, and the integer from then on.
\<close>

datatype chunk_id = ChunkBytes bytes | ChunkInt int

text \<open>
  \<open>bytes(chunk_id)\<close>: a copy of a bytes value; for an integer \<open>n\<close>, \<open>n\<close> zero bytes,
  \<open>ValueError\<close> when \<open>n\<close> is negative, and the host's \<open>OverflowError\<close> or
  \<open>MemoryError\<close> when \<open>n\<close> is too large for it. A host that serves chunks holds a
  bytes object of \<open>CHUNK_SIZE\<close> bytes (\<open>f.read(CHUNK_SIZE)\<close>), so no size up to
  \<open>CHUNK_SIZE\<close> is too large.
\<close>

definition py_bytes :: "collaborators \<Rightarrow> chunk_id \<Rightarrow> py_exception + bytes" where
  "py_bytes env x =
     (case x of
        ChunkBytes b \<Rightarrow> Inr b
      | ChunkInt n \<Rightarrow>
          if n < 0 then Inl ValueError
          else if n \<le> CHUNK_SIZE then Inr (replicate (nat n) (CHR 0x00))
          else (case bytes_error env (nat n) of
                  Some e \<Rightarrow> Inl e
                | None \<Rightarrow> Inr (replicate (nat n) (CHR 0x00))))"

text \<open>
  \<open>b.decode('utf-8')\<close>: the bytes when they are well-formed UTF-8 (no overlong form,
  no surrogate, nothing beyond U+10FFFF), \<open>UnicodeDecodeError\<close> otherwise.
\<close>

definition between :: "nat \<Rightarrow> nat \<Rightarrow> char \<Rightarrow> bool" where
  "between lo hi ch \<longleftrightarrow> lo \<le> of_char ch \<and> (of_char ch :: nat) \<le> hi"

fun utf8_valid :: "bytes \<Rightarrow> bool" where
  "utf8_valid [] \<longleftrightarrow> True"
| "utf8_valid (a # s) \<longleftrightarrow>
     (if between 0x00 0x7F a then utf8_valid s
      else if between 0xC2 0xDF a then
        (case s of b # s' \<Rightarrow> between 0x80 0xBF b \<and> utf8_valid s' | _ \<Rightarrow> False)
      else if between 0xE0 0xEF a then
        (case s of
           b # c # s' \<Rightarrow>
             (if a = CHR 0xE0 then between 0xA0 0xBF b
              else if a = CHR 0xED then between 0x80 0x9F b
              else between 0x80 0xBF b)
             \<and> between 0x80 0xBF c \<and> utf8_valid s'
         | _ \<Rightarrow> False)
      else if between 0xF0 0xF4 a then
        (case s of
           b # c # d # s' \<Rightarrow>
             (if a = CHR 0xF0 then between 0x90 0xBF b
              else if a = CHR 0xF4 then between 0x80 0x8F b
              else between 0x80 0xBF b)
             \<and> between 0x80 0xBF c \<and> between 0x80 0xBF d \<and> utf8_valid s'
         | _ \<Rightarrow> False)
      else False)"

definition decode_utf8 :: "bytes \<Rightarrow> py_exception + string" where
  "decode_utf8 b = (if utf8_valid b then Inr b else Inl UnicodeDecodeError)"

text \<open>
  \<open>MediaServer.__init__\<close>, with the Diffie-Hellman parameters it loads from the file
  \<open>parameters\<close>.
\<close>

definition MediaServer_init :: "bytes \<Rightarrow> server" where
  "MediaServer_init pem =
     \<lparr> parameters = pem, shared_key = None, CIPHER = None, DIGEST = None,
       CIPHER_MODE = None, KEY = None, sessions = Map.empty, self_username = None \<rparr>"

text \<open>\<open>request.args[k][0]\<close>\<close>

definition args_first :: "(bytes \<rightharpoonup> bytes list) \<Rightarrow> bytes \<Rightarrow> py_exception + bytes" where
  "args_first a k =
     (case a k of
        None \<Rightarrow> Inl KeyError
      | Some [] \<Rightarrow> Inl IndexError
      | Some (x # xs) \<Rightarrow> Inr x)"

text \<open>
  \<open>MediaServer.cipher(request, response, append)\<close>, the argument \<open>append\<close> being
  \<open>append'\<close> here. The key is \<open>self.shared_key\<close> when
  \<open>append\<close> is \<open>None\<close> or empty, and \<open>self.shared_key + append\<close> otherwise, which
  raises \<open>TypeError\<close> while \<open>self.shared_key\<close> is \<open>None\<close>. The MIC goes into a response
  header and the cryptogram is returned.
\<close>

definition cipher ::
  "collaborators \<Rightarrow> server \<Rightarrow> response \<Rightarrow> bytes \<Rightarrow> bytes option
    \<Rightarrow> response \<times> (py_exception + bytes)"
where
  "cipher env srv rsp message append' =
     (case (case append' of
              None \<Rightarrow> Inr (shared_key srv)
            | Some b \<Rightarrow>
                if b = [] then Inr (shared_key srv)
                else (case shared_key srv of
                        None \<Rightarrow> Inl TypeError
                      | Some k \<Rightarrow> Inr (Some (k @ b)))) of
        Inl e \<Rightarrow> (rsp, Inl e)
      | Inr key \<Rightarrow>
          let cryptogram =
                symetric_encryption env key message (CIPHER srv) (CIPHER_MODE srv) (DIGEST srv);
              MIC = create_digest env cryptogram (DIGEST srv)
          in (addRawHeader rsp ''MIC'' MIC, Inr cryptogram))"

definition do_parameters ::
  "collaborators \<Rightarrow> server \<Rightarrow> response \<Rightarrow> response \<times> (py_exception + bytes)"
where
  "do_parameters env srv rsp =
     (addRawHeader rsp ''content-type'' ''application/json'',
      Inr (json_dumps env (JObj [(''parameters'', JStr (parameters srv))])))"

definition protocols :: "(string \<times> string list) list" where
  "protocols =
     [(''cipher'', [''AES'', ''3DEs'']),
      (''digests'', [''SHA512'', ''BLAKE2'']),
      (''cipher_mode'', [''CBC'', ''OFB''])]"

definition do_choose_protocols ::
  "collaborators \<Rightarrow> response \<Rightarrow> response \<times> (py_exception + bytes)"
where
  "do_choose_protocols env rsp =
     (addRawHeader rsp ''content-type'' ''application/json'',
      Inr (json_dumps env (JObj (map (\<lambda>(k, vs). (k, JList (map JStr vs))) protocols))))"

definition do_list ::
  "collaborators \<Rightarrow> server \<Rightarrow> response \<Rightarrow> response \<times> (py_exception + bytes)"
where
  "do_list env srv rsp =
     (let media_list =
            map (\<lambda>(media_id, m).
                   JObj [(''id'', JStr media_id),
                         (''name'', JStr (name m)),
                         (''description'', JStr (description m)),
                         (''chunks'', JInt (py_ceil_div (file_size m) CHUNK_SIZE)),
                         (''duration'', JInt (int (duration m)))])
              CATALOG;
          rsp' = addRawHeader rsp ''content-type'' ''application/json'';
          message = json_dumps env (JList media_list)
      in cipher env srv rsp' message None)"

text \<open>
  The \<open>try\<close> block of \<open>do_download\<close>: it parses the chunk index, sets \<open>valid_chunk\<close>
  when the index is in range and then calls \<open>update_license(self.username,
  media_duration)\<close>. The bare \<open>except\<close> swallows every exception of the block, after
  \<open>valid_chunk\<close> has been set. The result is \<open>chunk_id\<close>, \<open>valid_chunk\<close> and the
  license file after the block.
\<close>

definition check_chunk ::
  "collaborators \<Rightarrow> server \<Rightarrow> licenses_file \<Rightarrow> media \<Rightarrow> bytes
    \<Rightarrow> chunk_id \<times> bool \<times> licenses_file"
where
  "check_chunk env srv lic media_item raw =
     (case py_int raw of
        None \<Rightarrow> (ChunkBytes raw, False, lic)
      | Some i \<Rightarrow>
          if i \<ge> 0 \<and> i < py_ceil_div (file_size media_item) CHUNK_SIZE then
            (ChunkInt i, True,
             (case self_username srv of
                None \<Rightarrow> lic
              | Some u \<Rightarrow>
                  (case update_license env u (duration media_item) lic of
                     Inl e \<Rightarrow> lic
                   | Inr lic' \<Rightarrow> lic')))
          else (ChunkInt i, False, lic))"

text \<open>
  \<open>do_download\<close>. The two early error branches read \<open>chunk_id\<close> before the function
  has assigned it, which raises \<open>UnboundLocalError\<close>. \<open>b2a_base64 env data\<close> stands
  for \<open>binascii.b2a_base64(data).decode('latin').strip()\<close>. The result is the license
  file, the response code and headers, and the returned body or the raised exception.
\<close>

definition do_download ::
  "collaborators \<Rightarrow> server \<Rightarrow> licenses_file \<Rightarrow> request \<Rightarrow> response
    \<Rightarrow> licenses_file \<times> response \<times> (py_exception + bytes)"
where
  "do_download env srv lic req rsp =
     (case args req of
        None \<Rightarrow> (lic, rsp, Inl AttributeError)
      | Some a \<Rightarrow>
          (case (case a ''id'' of
                   None \<Rightarrow> Inr None
                 | Some [] \<Rightarrow> Inl IndexError
                 | Some (x # xs) \<Rightarrow> Inr (Some x)) of
             Inl e \<Rightarrow> (lic, rsp, Inl e)
           | Inr None \<Rightarrow>
               (lic,
                addRawHeader (setResponseCode rsp 400) ''content-type'' ''application/json'',
                Inl UnboundLocalError)
           | Inr (Some media_id) \<Rightarrow>
               (case map_of CATALOG media_id of
                  None \<Rightarrow>
                    (lic,
                     addRawHeader (setResponseCode rsp 404) ''content-type'' ''application/json'',
                     Inl UnboundLocalError)
                | Some media_item \<Rightarrow>
                    (case (case a ''chunk'' of
                             None \<Rightarrow> Inr ''0''
                           | Some [] \<Rightarrow> Inl IndexError
                           | Some (x # xs) \<Rightarrow> Inr x) of
                       Inl e \<Rightarrow> (lic, rsp, Inl e)
                     | Inr raw \<Rightarrow>
                         (case check_chunk env srv lic media_item raw of
                            (chunk, valid_chunk, lic') \<Rightarrow>
                              if \<not> valid_chunk then
                                let rsp' = addRawHeader (setResponseCode rsp 400)
                                             ''content-type'' ''application/json'';
                                    message = json_dumps env
                                      (JObj [(''error'', JStr ''invalid chunk id'')])
                                in (case py_bytes env chunk of
                                      Inl e \<Rightarrow> (lic', rsp', Inl e)
                                    | Inr b \<Rightarrow>
                                        (case cipher env srv rsp' message (Some b) of
                                           (rsp'', r) \<Rightarrow> (lic', rsp'', r)))
                              else
                                (case chunk of
                                   ChunkBytes b \<Rightarrow> (lic', rsp, Inl TypeError)
                                 | ChunkInt i \<Rightarrow>
                                     let offset = i * CHUNK_SIZE in
                                     (case read_file env
                                             (CATALOG_BASE @ ''/'' @ file_name media_item) of
                                        None \<Rightarrow> (lic', rsp, Inl FileNotFoundError)
                                      | Some content \<Rightarrow>
                                          let data = take (nat CHUNK_SIZE)
                                                       (drop (nat offset) content);
                                              rsp' = addRawHeader rsp
                                                       ''content-type'' ''application/json'';
                                              message = json_dumps env
                                                (JObj [(''media_id'', JStr media_id),
                                                       (''chunk'', JInt i),
                                                       (''data'', JStr (b2a_base64 env data))])
                                          in (case py_bytes env (ChunkInt i) of
                                                Inl e \<Rightarrow> (lic', rsp', Inl e)
                                              | Inr b \<Rightarrow>
                                                  (case cipher env srv rsp' message (Some b) of
                                                     (rsp'', r) \<Rightarrow> (lic', rsp'', r))))))))))"

text \<open>
  \<open>render_GET\<close>: the dispatch on the path, and the handler of every exception, which
  answers 500 with an empty body.
\<close>

definition render_GET ::
  "collaborators \<Rightarrow> server \<Rightarrow> licenses_file \<Rightarrow> request \<Rightarrow> response
    \<Rightarrow> licenses_file \<times> response \<times> bytes"
where
  "render_GET env srv lic req rsp =
     (case (if path req = ''/api/parameters'' then
              (case do_parameters env srv rsp of (rsp', r) \<Rightarrow> (lic, rsp', r))
            else if path req = ''/api/protocols'' then
              (case do_choose_protocols env rsp of (rsp', r) \<Rightarrow> (lic, rsp', r))
            else if path req = ''/api/list'' then
              (case do_list env srv rsp of (rsp', r) \<Rightarrow> (lic, rsp', r))
            else if path req = ''/api/download'' then do_download env srv lic req rsp
            else (lic, addRawHeader rsp ''content-type'' ''text/plain'',
                  Inr ''Methods: /api/protocols /api/list /api/download'')) of
        (lic', rsp', Inr body) \<Rightarrow> (lic', rsp', body)
      | (lic', rsp', Inl e) \<Rightarrow>
          (lic', addRawHeader (setResponseCode rsp' 500) ''content-type'' ''text/plain'', []))"

text \<open>
  \<open>do_public_key\<close>. \<open>sessionid\<close> is the value \<open>uuid.uuid1()\<close> returns in this call and
  \<open>new_keys\<close> the pair \<open>CryptoFunctions.newKeys(self.parameters)\<close> returns.
  \<open>private_key.exchange\<close> runs, and can raise, before \<open>self.sessions\<close> is written.
  The body returned is \<open>None\<close> on the early return.
\<close>

definition do_public_key ::
  "collaborators \<Rightarrow> server \<Rightarrow> request \<Rightarrow> response \<Rightarrow> bytes \<Rightarrow> bytes \<times> bytes
    \<Rightarrow> server \<times> response \<times> (py_exception + bytes option)"
where
  "do_public_key env srv req rsp sessionid new_keys =
     (case args req of
        None \<Rightarrow> (srv, rsp, Inr None)
      | Some a \<Rightarrow>
          (case args_first a ''public_key'' of
             Inl e \<Rightarrow> (srv, rsp, Inl e)
           | Inr pem \<Rightarrow>
               (case load_pem_public_key env pem of
                  None \<Rightarrow> (srv, rsp, Inl ValueError)
                | Some client_public_key \<Rightarrow>
                    (case new_keys of
                       (private_key, public_key) \<Rightarrow>
                         (case exchange env private_key client_public_key of
                            Inl e \<Rightarrow> (srv, rsp, Inl e)
                          | Inr shared_key' \<Rightarrow>
                              let pk = public_bytes env public_key;
                                  srv' = srv\<lparr> sessions := (sessions srv)(sessionid \<mapsto>
                                           \<lparr> session_public_key = public_key,
                                             session_private_key = private_key,
                                             session_shared_key = shared_key' \<rparr>) \<rparr>;
                                  rsp' = addRawHeader rsp ''sessionid'' sessionid
                              in (srv', rsp',
                                  Inr (Some (json_dumps env
                                    (JObj [(''public_key'', JStr pk)])))))))))"

text \<open>\<open>request.args[k][0].decode('utf-8')\<close>\<close>

definition args_first_utf8 :: "(bytes \<rightharpoonup> bytes list) \<Rightarrow> bytes \<Rightarrow> py_exception + string" where
  "args_first_utf8 a k =
     (case args_first a k of
        Inl e \<Rightarrow> Inl e
      | Inr b \<Rightarrow> decode_utf8 b)"

text \<open>
  \<open>process_negotiation\<close> assigns the three attributes one after the other, so an
  exception at a later argument leaves the earlier assignments in place. It then
  prints the three values (\<open>suite_text\<close> is the text of the f-string), the only text
  of a client that the server prints; \<open>print\<close> raises \<open>UnicodeEncodeError\<close> when the
  standard output cannot encode it. The result is the server after the call and the
  exception raised, if any.
\<close>

definition suite_text :: "string \<Rightarrow> string \<Rightarrow> string \<Rightarrow> string" where
  "suite_text c d m =
     [CHR 0x0A, CHR 0x0A] @ ''Defined chiper suite as:'' @ [CHR 0x0A] @ ''Cipher: '' @ c
       @ [CHR 0x0A] @ ''Digest: '' @ d @ [CHR 0x0A] @ ''Mode: '' @ m @ [CHR 0x0A]"

definition process_negotiation ::
  "collaborators \<Rightarrow> server \<Rightarrow> request \<Rightarrow> server \<times> py_exception option"
where
  "process_negotiation env srv req =
     (case args req of
        None \<Rightarrow> (srv, None)
      | Some a \<Rightarrow>
          (case args_first_utf8 a ''cipher'' of
             Inl e \<Rightarrow> (srv, Some e)
           | Inr c \<Rightarrow>
               let srv1 = srv\<lparr> CIPHER := Some c \<rparr> in
               (case args_first_utf8 a ''digest'' of
                  Inl e \<Rightarrow> (srv1, Some e)
                | Inr d \<Rightarrow>
                    let srv2 = srv1\<lparr> DIGEST := Some d \<rparr> in
                    (case args_first_utf8 a ''cipher_mode'' of
                       Inl e \<Rightarrow> (srv2, Some e)
                     | Inr m \<Rightarrow>
                         let srv3 = srv2\<lparr> CIPHER_MODE := Some m \<rparr> in
                         if stdout_encodes env (suite_text c d m) then (srv3, None)
                         else (srv3, Some UnicodeEncodeError)))))"

text \<open>
  The states of the server: the one \<open>__init__\<close> builds, and those that the handlers
  of \<open>render_POST\<close> make of a state. Of these handlers \<open>do_public_key\<close> and
  \<open>process_negotiation\<close> assign attributes; \<open>new_license\<close> raises \<open>ValueError\<close>
  at its second statement (\<open>username, password = ""\<close>), before it assigns anything,
  and no handler of \<open>render_GET\<close> assigns an attribute.
\<close>

inductive reachable :: "collaborators \<Rightarrow> server \<Rightarrow> bool" for env :: collaborators where
  init: "reachable env (MediaServer_init pem)"
| public_key:
    "reachable env srv \<Longrightarrow>
       reachable env (fst (do_public_key env srv req rsp sessionid new_keys))"
| negotiation:
    "reachable env srv \<Longrightarrow> reachable env (fst (process_negotiation env srv req))"

section \<open>Example values\<close>

text \<open>Two clocks: one on UTC, one an hour ahead of UTC.\<close>

definition noon :: clock where
  "noon = \<lparr> now = 1000000, utcoffset = 0 \<rparr>"

definition summer :: clock where
  "summer = \<lparr> now = 7200000000, utcoffset = 3600000000 \<rparr>"

definition alice :: user where
  "alice = \<lparr> username = ''alice'', passwords = [], views = Some 4, time = Some 1000000, cert = [] \<rparr>"


definition bob :: user where
  "bob = \<lparr> username = ''bob'',
           passwords = [(''SHA512'', ''SHA512#pw''), (''BLAKE2'', ''BLAKE2#pw'')],
           views = Some 4, time = Some 301000000, cert = ''crt'' \<rparr>"

text \<open>
  Stand-ins for the collaborators, simple enough to be computed with: the cipher puts
  the key in front of the message, the digest puts the name of the algorithm in front,
  a signature is valid when it repeats the message, the key exchange joins the two
  keys and refuses the peer key \<open>rsa\<close>, and the license hook is \<open>updateLicense\<close>
  with \<open>view=True\<close>.
\<close>

fun dumps :: "json \<Rightarrow> string" where
  "dumps (JStr s) = s"
| "dumps (JInt i) = (if i = 0 then ''0'' else ''n'')"
| "dumps (JList js) = concat (map dumps js)"
| "dumps (JObj kvs) = concat (map (\<lambda>(k, v). k @ ''='' @ dumps v @ '';'') kvs)"

definition sample_env :: collaborators where
  "sample_env =
     \<lparr> digests = [''SHA512'', ''BLAKE2''],
       create_digest = (\<lambda>m d. (case d of None \<Rightarrow> ''?'' | Some n \<Rightarrow> n) @ ''#'' @ m),
       symetric_encryption =
         (\<lambda>key m alg mode dg. (case key of None \<Rightarrow> [] | Some k \<Rightarrow> k) @ ''|'' @ m),
       validateCerts = (\<lambda>crt chain. crt \<noteq> []),
       validateSignature = (\<lambda>crt m s. s = m),
       cert_der = (\<lambda>crt. crt),
       load_pem_public_key = (\<lambda>pem. if pem = [] then None else Some pem),
       exchange = (\<lambda>priv pub. if pub = ''rsa'' then Inl TypeError else Inr (priv @ pub)),
       public_bytes = (\<lambda>k. k),
       json_dumps = dumps,
       b2a_base64 = (\<lambda>b. b),
       update_license =
         (\<lambda>u d lic. case updateLicense noon lic u False True of
                      Inl e \<Rightarrow> Inl e
                    | Inr (x, lic') \<Rightarrow> Inr lic'),
       read_file =
         (\<lambda>p. if p = ''catalog/898a08080d1840793122b7e118b27a95d117ebce.mp3''
              then Some ''tune'' else None),
       bytes_error = (\<lambda>n. if 2 ^ 63 \<le> n then Some OverflowError else None),
       stdout_encodes = utf8_valid \<rparr>"

definition sample_server :: server where
  "sample_server =
     \<lparr> parameters = ''dh'', shared_key = Some ''k'', CIPHER = Some ''AES'',
       DIGEST = Some ''SHA512'', CIPHER_MODE = Some ''CBC'', KEY = None,
       sessions = Map.empty, self_username = Some ''alice'' \<rparr>"

text \<open>\<open>GET /api/download?id=898a...&chunk=...\<close>, with and without its arguments.\<close>

definition download_request :: "bytes \<Rightarrow> request" where
  "download_request chunk =
     \<lparr> path = ''/api/download'',
       args = Some [''id'' \<mapsto> [''898a08080d1840793122b7e118b27a95d117ebce''],
                    ''chunk'' \<mapsto> [chunk]] \<rparr>"

definition id_only_request :: request where
  "id_only_request =
     \<lparr> path = ''/api/download'',
       args = Some [''id'' \<mapsto> [''898a08080d1840793122b7e118b27a95d117ebce'']] \<rparr>"

definition no_id_request :: request where
  "no_id_request = \<lparr> path = ''/api/download'', args = Some Map.empty \<rparr>"

text \<open>\<open>POST /api/suite\<close> with values that \<open>do_choose_protocols\<close> does not list.\<close>

definition odd_suite_request :: request where
  "odd_suite_request =
     \<lparr> path = ''/api/suite'',
       args = Some [''cipher'' \<mapsto> [''ROT13''], ''digest'' \<mapsto> [''CRC''],
                    ''cipher_mode'' \<mapsto> [''ECB'']] \<rparr>"

definition suite_request :: request where
  "suite_request =
     \<lparr> path = ''/api/suite'',
       args = Some [''cipher'' \<mapsto> [''AES''], ''digest'' \<mapsto> [''SHA512''],
                    ''cipher_mode'' \<mapsto> [''CBC'']] \<rparr>"

text \<open>
  \<open>POST /api/publickey\<close> without the client's public key, with it, and with a key
  that loads but is no key of the server's group.
\<close>

definition no_key_request :: request where
  "no_key_request = \<lparr> path = ''/api/publickey'', args = Some Map.empty \<rparr>"

definition key_request :: request where
  "key_request = \<lparr> path = ''/api/publickey'', args = Some [''public_key'' \<mapsto> [''cpk'']] \<rparr>"

definition foreign_key_request :: request where
  "foreign_key_request =
     \<lparr> path = ''/api/publickey'', args = Some [''public_key'' \<mapsto> [''rsa'']] \<rparr>"

text \<open>\<open>POST /api/suite\<close> with a cipher name that is not UTF-8.\<close>

definition undecodable_suite_request :: request where
  "undecodable_suite_request =
     \<lparr> path = ''/api/suite'',
       args = Some [''cipher'' \<mapsto> [[CHR 0xFF]], ''digest'' \<mapsto> [''SHA512''],
                    ''cipher_mode'' \<mapsto> [''CBC'']] \<rparr>"

text \<open>
  The server after \<open>__init__\<close>, a key exchange with the client key \<open>cpk\<close> and the
  negotiation of AES, SHA512 and CBC.
\<close>

definition after_handshake :: server where
  "after_handshake =
     fst (process_negotiation sample_env
            (fst (do_public_key sample_env (MediaServer_init ''dh'') key_request fresh_response
                    ''sid'' (''priv'', ''pub'')))
            suite_request)"


section \<open>Properties of the license ledger\<close>

lemma load_users_simps [simp]:
  "load_users None = []" "load_users (Some users) = users"
  by (simp_all add: load_users_def)

lemma find_user_Some_index:
  "find_user users uname = Some u \<Longrightarrow> \<exists>i. find_user_index users uname k = Some (u, i)"
  by (induction users arbitrary: k) (auto split: if_splits)

lemma find_user_username:
  "find_user users uname = Some u \<Longrightarrow> username u = uname"
  by (induction users) (auto split: if_splits)

text \<open>
  Writing a user of the same name at the index the loop found makes that user the one
  the loop finds afterwards.
\<close>

lemma find_user_index_update:
  "find_user_index users uname k = Some (u, i) \<Longrightarrow> username u' = uname \<Longrightarrow>
     k \<le> i \<and> find_user (users[i - k := u']) uname = Some u'"
proof (induction users arbitrary: k)
  case Nil
  then show ?case by simp
next
  case (Cons a users)
  show ?case
  proof (cases "username a = uname")
    case True
    with Cons.prems show ?thesis by simp
  next
    case False
    with Cons.prems have r: "find_user_index users uname (k + 1) = Some (u, i)" by simp
    from Cons.IH[OF r Cons.prems(2)] have le: "k + 1 \<le> i"
      and f: "find_user (users[i - (k + 1) := u']) uname = Some u'" by simp_all
    from le have "i - k = Suc (i - (k + 1))" by simp
    with f False le show ?thesis by simp
  qed
qed

lemma updateLicense_view:
  assumes "uname \<noteq> []" "getLicense f uname = Some u" "views u = Some v"
  shows "\<exists>f'. updateLicense c f uname False True = Inr (Some (u\<lparr>views := Some (v - 1)\<rparr>), f')
           \<and> getLicense f' uname = Some (u\<lparr>views := Some (v - 1)\<rparr>)"
proof -
  from assms(2) have fu: "find_user (load_users f) uname = Some u" by (simp add: getLicense_def)
  then obtain i where fi: "find_user_index (load_users f) uname 0 = Some (u, i)"
    using find_user_Some_index by blast
  have un: "username (u\<lparr>views := Some (v - 1)\<rparr>) = uname"
    using find_user_username[OF fu] by simp
  from find_user_index_update[OF fi un]
  have "find_user ((load_users f)[i := u\<lparr>views := Some (v - 1)\<rparr>]) uname = Some (u\<lparr>views := Some (v - 1)\<rparr>)"
    by simp
  with fi assms(1,3) show ?thesis
    by (simp add: updateLicense_def getLicense_def Let_def)
qed

text \<open>
  Claim C1, as the code has it: for a registered username whose record holds a view
  counter \<open>v\<close>, every call \<open>updateLicense(server, username, view=True)\<close> succeeds and
  lowers the counter by exactly one, with no floor at zero, so \<open>n\<close> calls leave
  \<open>v - n\<close>. From 4, four calls leave exactly 0 and the calls after them leave negative
  counters.
\<close>

theorem view_times_no_floor:
  assumes "uname \<noteq> []" "getLicense f uname = Some u" "views u = Some v"
  shows "\<exists>f' u'. view_times n c f uname = Inr f' \<and> getLicense f' uname = Some u'
           \<and> views u' = Some (v - int n)"
  using assms
proof (induction n arbitrary: f u v)
  case 0
  then show ?case by simp
next
  case (Suc n)
  from updateLicense_view[OF Suc.prems, of c] obtain f1 where
    s: "updateLicense c f uname False True = Inr (Some (u\<lparr>views := Some (v - 1)\<rparr>), f1)"
    and g: "getLicense f1 uname = Some (u\<lparr>views := Some (v - 1)\<rparr>)" by blast
  have "views (u\<lparr>views := Some (v - 1)\<rparr>) = Some (v - 1)" by simp
  from Suc.IH[OF Suc.prems(1) g this] obtain f' u' where
    "view_times n c f1 uname = Inr f'" "getLicense f' uname = Some u'"
    "views u' = Some (v - 1 - int n)" by blast
  with s show ?case by simp
qed

text \<open>
  Against claim C1 as stated (a floor at zero): from a counter of 4, four calls leave 0
  and the fifth leaves \<open>-1\<close>.
\<close>

theorem view_times_counterexample:
  "view_times 4 noon (Some [alice]) ''alice'' = Inr (Some [alice\<lparr>views := Some 0\<rparr>])
   \<and> view_times 5 noon (Some [alice]) ''alice'' = Inr (Some [alice\<lparr>views := Some (- 1)\<rparr>])"
  by (simp add: eval_nat_numeral updateLicense_def Let_def alice_def)

theorem view_times_no_floor_witness:
  "''alice'' \<noteq> [] \<and> getLicense (Some [alice]) ''alice'' = Some alice \<and> views alice = Some 4
   \<and> (\<exists>f' u'. view_times 4 noon (Some [alice]) ''alice'' = Inr f'
         \<and> getLicense f' ''alice'' = Some u' \<and> views u' = Some 0)"
proof -
  have a: "''alice'' \<noteq> []" by simp
  have b: "getLicense (Some [alice]) ''alice'' = Some alice"
    by (simp add: getLicense_def alice_def)
  have c: "views alice = Some 4" by (simp add: alice_def)
  from view_times_no_floor[OF a b c, of 4 noon] a b c show ?thesis by simp
qed

text \<open>What \<open>licenseValid\<close> computes, on any clock.\<close>

lemma licenseValid_characterisation:
  "licenseValid c f uname \<longleftrightarrow>
     (\<exists>l v t. getLicense f uname = Some l \<and> views l = Some v \<and> time l = Some t
        \<and> 0 < v \<and> t \<noteq> 0 \<and> now c \<le> utcfromtimestamp t)"
  by (auto simp: licenseValid_def split: option.splits)

text \<open>
  Claim C3, as the code has it: on a host whose local time is UTC and whose clock is
  past the epoch, \<open>licenseValid\<close> is true exactly when a record of the username exists,
  its \<open>views\<close> is greater than 0 and its expiry \<open>time\<close> is not before the current
  time; the expiry being equal to the current time still counts as valid. A record
  whose expiry lies before the current time is invalid whatever its \<open>views\<close>.
\<close>

theorem licenseValid_iff:
  assumes "utcoffset c = 0" "0 < now c"
  shows "(licenseValid c f uname \<longleftrightarrow>
            (\<exists>l v t. getLicense f uname = Some l \<and> views l = Some v \<and> time l = Some t
               \<and> 0 < v \<and> timestamp c (now c) \<le> t))
         \<and> (\<forall>l t. getLicense f uname = Some l \<and> time l = Some t \<and> t < timestamp c (now c)
               \<longrightarrow> \<not> licenseValid c f uname)"
proof -
  have n: "timestamp c (now c) = now c"
    using assms(1) by (simp add: timestamp_def)
  have "t \<noteq> 0" if "now c \<le> t" for t
    using that assms(2) by auto
  then show ?thesis
    unfolding licenseValid_characterisation n utcfromtimestamp_def by fastforce
qed

text \<open>
  Against claim C3 as stated (expiry strictly after the current time): a license that
  expires at the very instant of the check is valid.
\<close>

theorem licenseValid_counterexample:
  "licenseValid noon (Some [alice]) ''alice''
   \<and> getLicense (Some [alice]) ''alice'' = Some alice
   \<and> views alice = Some 4 \<and> time alice = Some 1000000
   \<and> utcoffset noon = 0 \<and> now noon = 1000000 \<and> timestamp noon (now noon) = 1000000"
  by (simp add: licenseValid_def getLicense_def alice_def noon_def utcfromtimestamp_def
      timestamp_def)

theorem licenseValid_iff_witness:
  "utcoffset noon = 0 \<and> 0 < now noon \<and> licenseValid noon (Some [alice]) ''alice''
   \<and> \<not> licenseValid (noon\<lparr>now := 1000001\<rparr>) (Some [alice]) ''alice''"
proof -
  have o: "utcoffset noon = 0" by (simp add: noon_def)
  have h: "0 < now noon" by (simp add: noon_def)
  have o': "utcoffset (noon\<lparr>now := 1000001\<rparr>) = 0" by (simp add: noon_def)
  have h': "0 < now (noon\<lparr>now := 1000001\<rparr>)" by simp
  have g: "getLicense (Some [alice]) ''alice'' = Some alice"
    by (simp add: getLicense_def alice_def)
  have a: "licenseValid noon (Some [alice]) ''alice''"
    using licenseValid_iff[OF o h, of "Some [alice]" "''alice''"] g
    by (simp add: alice_def noon_def timestamp_def)
  have b: "\<not> licenseValid (noon\<lparr>now := 1000001\<rparr>) (Some [alice]) ''alice''"
    using licenseValid_iff[OF o' h', of "Some [alice]" "''alice''"] g
    by (simp add: alice_def noon_def timestamp_def)
  from o h a b show ?thesis by simp
qed

text \<open>
  Off UTC the two readings of the clock differ: \<open>register\<close> stores a POSIX timestamp,
  \<open>licenseValid\<close> compares its UTC wall-clock reading with the local wall clock. On a
  host an hour ahead of UTC a license is invalid at the instant it is granted.
\<close>

lemma licenseValid_off_utc:
  "register sample_env summer None ''bob'' ''pw'' ''bobpw'' ''crt'' []
     = ((Some (bob\<lparr> time := Some 3900000000 \<rparr>), []),
        Some [bob\<lparr> time := Some 3900000000 \<rparr>])
   \<and> \<not> licenseValid summer (Some [bob\<lparr> time := Some 3900000000 \<rparr>]) ''bob''"
  by (simp add: register_def licenseValid_def getLicense_def sample_env_def summer_def bob_def
      Let_def LICENSE_VIEWS_def LICENSE_SPAN_def timestamp_def utcfromtimestamp_def)

lemma map_of_dict_set: "map_of (dict_set d k v) = (map_of d)(k \<mapsto> v)"
  by (induction d k v rule: dict_set.induct) auto

lemma map_of_create_digests:
  "map_of (create_digests env password ds d) k =
     (if k \<in> set ds then Some (create_digest env password (Some k)) else map_of d k)"
  by (induction ds arbitrary: d) (auto simp: map_of_dict_set)

text \<open>
  Claim C5: when \<open>register\<close> succeeds, the new record holds, under every algorithm of
  \<open>CryptoFunctions.digests\<close>, the digest of the password under that algorithm, its
  \<open>views\<close> is 4 and its \<open>time\<close> is the timestamp of the registration plus five
  minutes; the username had no record before, and the record is appended to the file.
  For a username that has a record already, \<open>register\<close> returns no user and leaves the
  file as it was.
\<close>

theorem register_success_and_duplicate:
  "(register env c f uname password signature signcert intermedium = ((Some u, msg), f') \<longrightarrow>
      (\<forall>digest \<in> set (digests env).
          map_of (passwords u) digest = Some (create_digest env password (Some digest)))
      \<and> views u = Some 4
      \<and> time u = Some (timestamp c (now c) + 5 * 60 * 1000000)
      \<and> username u = uname
      \<and> getLicense f uname = None
      \<and> f' = Some (load_users f @ [u]))
   \<and> (getLicense f uname \<noteq> None \<longrightarrow>
        fst (fst (register env c f uname password signature signcert intermedium)) = None
        \<and> snd (register env c f uname password signature signcert intermedium) = f)"
  by (auto simp: register_def Let_def getLicense_def map_of_create_digests LICENSE_VIEWS_def
      LICENSE_SPAN_def timestamp_def split: if_splits option.splits)

theorem register_success_and_duplicate_witness:
  "register sample_env noon (Some [alice]) ''bob'' ''pw'' ''bobpw'' ''crt'' []
     = ((Some bob, []), Some [alice, bob])
   \<and> map_of (passwords bob) ''BLAKE2'' = Some (create_digest sample_env ''pw'' (Some ''BLAKE2''))
   \<and> getLicense (Some [alice, bob]) ''bob'' \<noteq> None
   \<and> register sample_env noon (Some [alice, bob]) ''bob'' ''pw'' ''bobpw'' ''crt'' []
     = ((None, ''The username given is already being used! Please choose other.''),
        Some [alice, bob])"
proof -
  note t = register_success_and_duplicate[of sample_env noon _ "''bob''" "''pw''" "''bobpw''"
      "''crt''" "[]"]
  have r: "register sample_env noon (Some [alice]) ''bob'' ''pw'' ''bobpw'' ''crt'' []
     = ((Some bob, []), Some [alice, bob])"
    by (simp add: register_def sample_env_def alice_def bob_def noon_def Let_def
        LICENSE_VIEWS_def LICENSE_SPAN_def timestamp_def)
  have d: "''BLAKE2'' \<in> set (digests sample_env)" by (simp add: sample_env_def)
  from t[of "Some [alice]" bob "[]" "Some [alice, bob]"] r d
  have p: "map_of (passwords bob) ''BLAKE2'' = Some (create_digest sample_env ''pw'' (Some ''BLAKE2''))"
    by blast
  have g: "getLicense (Some [alice, bob]) ''bob'' \<noteq> None"
    by (simp add: getLicense_def alice_def bob_def)
  from t[of "Some [alice, bob]" bob "[]" "Some [alice, bob]"] g
  have n: "fst (fst (register sample_env noon (Some [alice, bob]) ''bob'' ''pw'' ''bobpw'' ''crt'' [])) = None"
    and f: "snd (register sample_env noon (Some [alice, bob]) ''bob'' ''pw'' ''bobpw'' ''crt'' []) = Some [alice, bob]"
    by blast+
  have e: "register sample_env noon (Some [alice, bob]) ''bob'' ''pw'' ''bobpw'' ''crt'' []
     = ((None, ''The username given is already being used! Please choose other.''),
        Some [alice, bob])"
    by (simp add: register_def sample_env_def alice_def bob_def Let_def)
  from r p g e show ?thesis by simp
qed

section \<open>Properties of the media server\<close>

lemma py_int_zero: "py_int ''0'' = Some 0"
  by (simp add: py_int_def strip_def is_space_def py_digits_def digit_val_def)

lemma py_int_minus_one: "py_int ''-1'' = Some (- 1)"
  by (simp add: py_int_def strip_def is_space_def py_digits_def digit_val_def)

lemma CATALOG_chunks_positive:
  "map_of CATALOG media_id = Some m \<Longrightarrow> 0 < py_ceil_div (file_size m) CHUNK_SIZE"
  by (auto simp: CATALOG_def py_ceil_div_def CHUNK_SIZE_def split: if_splits)

lemma CATALOG_chunks_le:
  "map_of CATALOG media_id = Some m \<Longrightarrow> py_ceil_div (file_size m) CHUNK_SIZE \<le> CHUNK_SIZE"
  by (auto simp: CATALOG_def py_ceil_div_def CHUNK_SIZE_def split: if_splits)

lemma py_bytes_small:
  "0 \<le> i \<Longrightarrow> i \<le> CHUNK_SIZE \<Longrightarrow>
     py_bytes env (ChunkInt i) = Inr (replicate (nat i) (CHR 0x00))"
  by (simp add: py_bytes_def)

text \<open>
  What \<open>cipher\<close> computes when the attribute \<open>self.shared_key\<close> holds bytes: the
  key is these bytes followed by the tag.
\<close>

lemma cipher_with_shared_key:
  assumes "shared_key srv = Some k"
  shows "cipher env srv rsp plaintext tag =
     (let cryptogram = symetric_encryption env
            (Some (k @ (case tag of None \<Rightarrow> [] | Some b \<Rightarrow> b))) plaintext
            (CIPHER srv) (CIPHER_MODE srv) (DIGEST srv)
      in (addRawHeader rsp ''MIC'' (create_digest env cryptogram (DIGEST srv)), Inr cryptogram))"
  using assms by (simp add: cipher_def Let_def split: option.splits)

text \<open>Whenever \<open>cipher\<close> returns a cryptogram, the MIC header is its digest.\<close>

lemma cipher_mic:
  "cipher env srv rsp plaintext tag = (rsp', Inr cryptogram) \<Longrightarrow>
     rsp' = addRawHeader rsp ''MIC'' (create_digest env cryptogram (DIGEST srv))"
  by (auto simp: cipher_def Let_def split: option.splits if_splits)

text \<open>
  No handler assigns \<open>self.shared_key\<close>: it is \<open>None\<close> from \<open>__init__\<close> on, and while
  it is, \<open>cipher\<close> encrypts under the key \<open>None\<close> when there is no tag and raises
  \<open>TypeError\<close> when there is one.
\<close>

lemma process_negotiation_shared_key:
  "shared_key (fst (process_negotiation env srv req)) = shared_key srv"
  by (simp add: process_negotiation_def Let_def split: option.splits sum.splits)

lemma cipher_without_shared_key:
  assumes "shared_key srv = None"
  shows "cipher env srv rsp plaintext None =
           (addRawHeader rsp ''MIC''
              (create_digest env
                 (symetric_encryption env None plaintext (CIPHER srv) (CIPHER_MODE srv) (DIGEST srv))
                 (DIGEST srv)),
            Inr (symetric_encryption env None plaintext (CIPHER srv) (CIPHER_MODE srv) (DIGEST srv)))"
    and "cipher env srv rsp plaintext (Some (b # bs)) = (rsp, Inl TypeError)"
  using assms by (simp_all add: cipher_def Let_def)

lemma do_public_key_frame:
  "shared_key (fst (do_public_key env srv req rsp sessionid new_keys)) = shared_key srv
   \<and> CIPHER (fst (do_public_key env srv req rsp sessionid new_keys)) = CIPHER srv
   \<and> DIGEST (fst (do_public_key env srv req rsp sessionid new_keys)) = DIGEST srv
   \<and> CIPHER_MODE (fst (do_public_key env srv req rsp sessionid new_keys)) = CIPHER_MODE srv"
  by (simp add: do_public_key_def Let_def split: option.splits sum.splits prod.splits)

lemma reachable_shared_key: "reachable env srv \<Longrightarrow> shared_key srv = None"
proof (induction rule: reachable.induct)
  case (init pem)
  show ?case by (simp add: MediaServer_init_def)
next
  case (public_key srv req rsp sessionid new_keys)
  then show ?case
    using do_public_key_frame[of env srv req rsp sessionid new_keys] by simp
next
  case (negotiation srv req)
  then show ?case by (simp add: process_negotiation_shared_key)
qed

text \<open>
  Claim C6 says that \<open>cipher\<close> encrypts under a key derived from the shared secret of
  the session. The code, in every state the server reaches: \<open>self.shared_key\<close> is
  \<open>None\<close>, so \<open>cipher\<close> hands the key \<open>None\<close> to the encryption when there is no
  tag and raises \<open>TypeError\<close> when there is one; the secret that the key exchange
  stored in the session is never read. The MIC is the digest of the cryptogram, as the
  claim says.
\<close>

theorem cipher_ignores_session_secret:
  assumes "reachable env srv"
  shows "shared_key srv = None
    \<and> cipher env srv rsp plaintext None =
        (addRawHeader rsp ''MIC''
           (create_digest env
              (symetric_encryption env None plaintext (CIPHER srv) (CIPHER_MODE srv) (DIGEST srv))
              (DIGEST srv)),
         Inr (symetric_encryption env None plaintext (CIPHER srv) (CIPHER_MODE srv) (DIGEST srv)))
    \<and> cipher env srv rsp plaintext (Some (b # bs)) = (rsp, Inl TypeError)"
  using reachable_shared_key[OF assms] by (simp add: cipher_without_shared_key)

text \<open>
  After a key exchange and a negotiation the session holds the shared secret
  \<open>privcpk\<close>, and the sample cipher, which puts the key in front of the message, puts
  nothing in front of it.
\<close>

theorem cipher_ignores_session_secret_witness:
  "reachable sample_env after_handshake
   \<and> sessions after_handshake ''sid''
       = Some \<lparr> session_public_key = ''pub'', session_private_key = ''priv'',
                session_shared_key = ''privcpk'' \<rparr>
   \<and> cipher sample_env after_handshake fresh_response ''hello'' None
       = (\<lparr> code = 200, responseHeaders = [(''MIC'', ''SHA512#|hello'')] \<rparr>, Inr ''|hello'')
   \<and> cipher sample_env after_handshake fresh_response ''hello'' (Some ''tag'')
       = (fresh_response, Inl TypeError)"
proof -
  have r: "reachable sample_env after_handshake"
    unfolding after_handshake_def
    by (intro reachable.negotiation reachable.public_key reachable.init)
  have e: "after_handshake =
      \<lparr> parameters = ''dh'', shared_key = None, CIPHER = Some ''AES'', DIGEST = Some ''SHA512'',
        CIPHER_MODE = Some ''CBC'', KEY = None,
        sessions = [''sid'' \<mapsto> \<lparr> session_public_key = ''pub'', session_private_key = ''priv'',
                                 session_shared_key = ''privcpk'' \<rparr>],
        self_username = None \<rparr>"
    by (simp add: after_handshake_def do_public_key_def process_negotiation_def
        args_first_utf8_def args_first_def decode_utf8_def between_def suite_text_def
        key_request_def suite_request_def MediaServer_init_def sample_env_def Let_def)
  have s: "sessions after_handshake ''sid''
       = Some \<lparr> session_public_key = ''pub'', session_private_key = ''priv'',
                session_shared_key = ''privcpk'' \<rparr>"
    by (simp add: e)
  note t = cipher_ignores_session_secret[OF r, of fresh_response "''hello''" "CHR ''t''" "''ag''"]
  have c: "CIPHER after_handshake = Some ''AES''" "CIPHER_MODE after_handshake = Some ''CBC''"
    "DIGEST after_handshake = Some ''SHA512''"
    by (simp_all add: e)
  from t have 1: "cipher sample_env after_handshake fresh_response ''hello'' None
       = (\<lparr> code = 200, responseHeaders = [(''MIC'', ''SHA512#|hello'')] \<rparr>, Inr ''|hello'')"
    by (simp add: c sample_env_def fresh_response_def addRawHeader_def)
  from t have 2: "cipher sample_env after_handshake fresh_response ''hello'' (Some ''tag'')
       = (fresh_response, Inl TypeError)"
    by simp
  from r s 1 2 show ?thesis by simp
qed

text \<open>
  The path of \<open>do_download\<close> that serves a chunk: the media id is in the catalog, the
  chunk index (given, or \<open>b'0'\<close> by default) parses and is in range, and the media
  file can be read.
\<close>

lemma do_download_served:
  assumes "args req = Some a" "a ''id'' = Some (media_id # ids)"
    "map_of CATALOG media_id = Some m"
    "(case a ''chunk'' of None \<Rightarrow> Inr ''0'' | Some [] \<Rightarrow> Inl IndexError
        | Some (x # xs) \<Rightarrow> Inr x) = Inr raw"
    "py_int raw = Some i" "0 \<le> i" "i < py_ceil_div (file_size m) CHUNK_SIZE"
    "read_file env (CATALOG_BASE @ ''/'' @ file_name m) = Some content"
  shows "do_download env srv lic req rsp =
     (case cipher env srv (addRawHeader rsp ''content-type'' ''application/json'')
             (json_dumps env
                (JObj [(''media_id'', JStr media_id), (''chunk'', JInt i),
                       (''data'', JStr (b2a_base64 env
                          (take (nat CHUNK_SIZE) (drop (nat (i * CHUNK_SIZE)) content))))]))
             (Some (replicate (nat i) (CHR 0x00))) of
        (rsp', r) \<Rightarrow>
          ((case self_username srv of
              None \<Rightarrow> lic
            | Some u \<Rightarrow>
                (case update_license env u (duration m) lic of
                   Inl e \<Rightarrow> lic
                 | Inr lic' \<Rightarrow> lic')),
           rsp', r))"
proof -
  have "i \<le> CHUNK_SIZE"
    using assms(3,7) CATALOG_chunks_le[of media_id m] by simp
  with assms show ?thesis
    by (simp add: do_download_def check_chunk_def py_bytes_small Let_def)
qed




text \<open>
  Claim C9: a download request without the \<open>chunk\<close> argument is answered exactly as
  the same request with \<open>chunk=0\<close>; when the media id is in the catalog and the file
  can be read, that answer is chunk 0 of the file, handed to \<open>cipher\<close>.
\<close>

theorem do_download_default_chunk:
  assumes "args req = Some a" "a ''chunk'' = None"
  shows "do_download env srv lic req rsp =
           do_download env srv lic (req\<lparr> args := Some (a(''chunk'' \<mapsto> [''0''])) \<rparr>) rsp
   \<and> (\<forall>media_id ids m content.
         a ''id'' = Some (media_id # ids) \<and> map_of CATALOG media_id = Some m
         \<and> read_file env (CATALOG_BASE @ ''/'' @ file_name m) = Some content \<longrightarrow>
         do_download env srv lic req rsp =
           (case cipher env srv (addRawHeader rsp ''content-type'' ''application/json'')
                   (json_dumps env
                      (JObj [(''media_id'', JStr media_id), (''chunk'', JInt 0),
                             (''data'', JStr (b2a_base64 env (take (nat CHUNK_SIZE) content)))]))
                   (Some []) of
              (rsp', r) \<Rightarrow>
                ((case self_username srv of
                    None \<Rightarrow> lic
                  | Some u \<Rightarrow>
                      (case update_license env u (duration m) lic of
                         Inl e \<Rightarrow> lic
                       | Inr lic' \<Rightarrow> lic')),
                 rsp', r)))"
proof (intro conjI allI impI)
  show "do_download env srv lic req rsp =
           do_download env srv lic (req\<lparr> args := Some (a(''chunk'' \<mapsto> [''0''])) \<rparr>) rsp"
    using assms
    by (simp add: do_download_def cong: option.case_cong sum.case_cong list.case_cong)
next
  fix media_id ids m content
  assume h: "a ''id'' = Some (media_id # ids) \<and> map_of CATALOG media_id = Some m
         \<and> read_file env (CATALOG_BASE @ ''/'' @ file_name m) = Some content"
  have c: "(case a ''chunk'' of None \<Rightarrow> Inr ''0'' | Some [] \<Rightarrow> Inl IndexError
           | Some (x # xs) \<Rightarrow> Inr x) = Inr ''0''"
    using assms(2) by simp
  have p: "0 < py_ceil_div (file_size m) CHUNK_SIZE"
    using h CATALOG_chunks_positive by blast
  from do_download_served[OF assms(1) _ _ c py_int_zero _ p, where media_id = media_id and ids = ids
      and content = content and env = env and srv = srv and lic = lic and rsp = rsp] h
  show "do_download env srv lic req rsp =
           (case cipher env srv (addRawHeader rsp ''content-type'' ''application/json'')
                   (json_dumps env
                      (JObj [(''media_id'', JStr media_id), (''chunk'', JInt 0),
                             (''data'', JStr (b2a_base64 env (take (nat CHUNK_SIZE) content)))]))
                   (Some []) of
              (rsp', r) \<Rightarrow>
                ((case self_username srv of
                    None \<Rightarrow> lic
                  | Some u \<Rightarrow>
                      (case update_license env u (duration m) lic of
                         Inl e \<Rightarrow> lic
                       | Inr lic' \<Rightarrow> lic')),
                 rsp', r))"
    by simp
qed

theorem do_download_default_chunk_witness:
  "args id_only_request = Some [''id'' \<mapsto> [''898a08080d1840793122b7e118b27a95d117ebce'']]
   \<and> [''id'' \<mapsto> [''898a08080d1840793122b7e118b27a95d117ebce'']] ''chunk'' = None
   \<and> do_download sample_env sample_server (Some [alice]) id_only_request fresh_response =
       do_download sample_env sample_server (Some [alice]) (download_request ''0'') fresh_response"
proof -
  let ?a = "[''id'' \<mapsto> [''898a08080d1840793122b7e118b27a95d117ebce'']]"
  have 1: "args id_only_request = Some ?a" by (simp add: id_only_request_def)
  have 2: "?a ''chunk'' = None" by simp
  have e: "id_only_request\<lparr> args := Some (?a(''chunk'' \<mapsto> [''0''])) \<rparr> = download_request ''0''"
    by (simp add: id_only_request_def download_request_def)
  from do_download_default_chunk[OF 1 2, of sample_env sample_server "Some [alice]" fresh_response]
  have "do_download sample_env sample_server (Some [alice]) id_only_request fresh_response =
       do_download sample_env sample_server (Some [alice])
         (id_only_request\<lparr> args := Some (?a(''chunk'' \<mapsto> [''0''])) \<rparr>) fresh_response"
    by (rule conjunct1)
  with 1 2 e show ?thesis by simp
qed

text \<open>
  The bounds check of \<open>do_download\<close>: \<open>valid_chunk\<close> is set exactly for the indices
  from 0 to \<open>ceil(file_size / CHUNK_SIZE) - 1\<close>, and the listing reports 832 chunks
  for the item of the catalog.
\<close>

lemma check_chunk_bounds:
  "py_int raw = Some i \<Longrightarrow>
     fst (snd (check_chunk env srv lic m raw)) \<longleftrightarrow>
       0 \<le> i \<and> i < py_ceil_div (file_size m) CHUNK_SIZE"
  by (simp add: check_chunk_def)

lemma do_list_chunks:
  "do_list env srv rsp =
     cipher env srv (addRawHeader rsp ''content-type'' ''application/json'')
       (json_dumps env
          (JList [JObj [(''id'', JStr ''898a08080d1840793122b7e118b27a95d117ebce''),
                        (''name'', JStr ''Sunny Afternoon - Upbeat Ukulele Background Music''),
                        (''description'',
                         JStr ''Nicolai Heidlas Music: http://soundcloud.com/nicolai-heidlas''),
                        (''chunks'', JInt 832),
                        (''duration'', JInt 213)]]))
       None"
  by (simp add: do_list_def CATALOG_def py_ceil_div_def CHUNK_SIZE_def Let_def)

text \<open>
  An index at or beyond the number of chunks gets the answer 400 with the message
  \<open>invalid chunk id\<close>, handed to \<open>cipher\<close>, unless the index is so large that
  \<open>bytes(chunk_id)\<close> raises on the host.
\<close>

lemma do_download_index_too_large:
  assumes "args req = Some a" "a ''id'' = Some (media_id # ids)"
    "map_of CATALOG media_id = Some m" "a ''chunk'' = Some (raw # raws)"
    "py_int raw = Some i" "py_ceil_div (file_size m) CHUNK_SIZE \<le> i"
  shows "do_download env srv lic req rsp =
     (case py_bytes env (ChunkInt i) of
        Inl e \<Rightarrow>
          (lic, addRawHeader (setResponseCode rsp 400) ''content-type'' ''application/json'',
           Inl e)
      | Inr b \<Rightarrow>
          (case cipher env srv
                  (addRawHeader (setResponseCode rsp 400) ''content-type'' ''application/json'')
                  (json_dumps env (JObj [(''error'', JStr ''invalid chunk id'')]))
                  (Some b) of
             (rsp', r) \<Rightarrow> (lic, rsp', r)))"
proof -
  have "0 < py_ceil_div (file_size m) CHUNK_SIZE"
    using assms(3) by (rule CATALOG_chunks_positive)
  with assms show ?thesis
    by (simp add: do_download_def check_chunk_def Let_def)
qed

lemma do_download_first_index_out_of_range:
  assumes "args req = Some a" "a ''id'' = Some (media_id # ids)"
    "map_of CATALOG media_id = Some m" "a ''chunk'' = Some (raw # raws)"
    "py_int raw = Some (py_ceil_div (file_size m) CHUNK_SIZE)"
  shows "do_download env srv lic req rsp =
     (case cipher env srv
             (addRawHeader (setResponseCode rsp 400) ''content-type'' ''application/json'')
             (json_dumps env (JObj [(''error'', JStr ''invalid chunk id'')]))
             (Some (replicate (nat (py_ceil_div (file_size m) CHUNK_SIZE)) (CHR 0x00))) of
        (rsp', r) \<Rightarrow> (lic, rsp', r))"
proof -
  have p: "0 < py_ceil_div (file_size m) CHUNK_SIZE"
    using assms(3) by (rule CATALOG_chunks_positive)
  have l: "py_ceil_div (file_size m) CHUNK_SIZE \<le> CHUNK_SIZE"
    using assms(3) by (rule CATALOG_chunks_le)
  from p l have "py_bytes env (ChunkInt (py_ceil_div (file_size m) CHUNK_SIZE)) =
      Inr (replicate (nat (py_ceil_div (file_size m) CHUNK_SIZE)) (CHR 0x00))"
    by (simp add: py_bytes_small)
  with do_download_index_too_large[OF assms(1-5), of env srv lic rsp] show ?thesis
    by simp
qed

text \<open>
  A negative index fails the bounds check too, but \<open>bytes(chunk_id)\<close> then raises
  \<open>ValueError\<close> before \<open>cipher\<close> is called.
\<close>

lemma do_download_negative_index:
  assumes "args req = Some a" "a ''id'' = Some (media_id # ids)"
    "map_of CATALOG media_id = Some m" "a ''chunk'' = Some (raw # raws)"
    "py_int raw = Some i" "i < 0"
  shows "do_download env srv lic req rsp =
     (lic, addRawHeader (setResponseCode rsp 400) ''content-type'' ''application/json'',
      Inl ValueError)"
  using assms by (simp add: do_download_def check_chunk_def py_bytes_def Let_def)

text \<open>
  Claim C4 says that a negative chunk index fails with the invalid-chunk error. The
  code at \<open>chunk=-1\<close>: the request for the item of the catalog is answered by
  \<open>render_GET\<close> with code 500 and an empty body, the answer of its exception handler,
  and not with the message \<open>invalid chunk id\<close>.
\<close>

theorem render_GET_negative_chunk:
  "render_GET env srv lic (download_request ''-1'') fresh_response =
     (lic,
      \<lparr> code = 500,
        responseHeaders = [(''content-type'', ''application/json''),
                           (''content-type'', ''text/plain'')] \<rparr>,
      [])"
  by (simp add: render_GET_def do_download_def download_request_def CATALOG_def check_chunk_def
      py_int_minus_one py_bytes_def Let_def fresh_response_def addRawHeader_def
      setResponseCode_def)

text \<open>
  Claim C8 says that every answer of the download endpoint, an error included, is
  sealed. The code at a request without \<open>id\<close>: the error branch reads \<open>chunk_id\<close>
  before its assignment, and \<open>render_GET\<close> answers with code 500 and the empty body of
  its exception handler, with no MIC header: nothing went through \<open>cipher\<close>.
\<close>

theorem render_GET_missing_id_unsealed:
  "render_GET env srv lic no_id_request fresh_response =
     (lic,
      \<lparr> code = 500,
        responseHeaders = [(''content-type'', ''application/json''),
                           (''content-type'', ''text/plain'')] \<rparr>,
      [])"
  by (simp add: render_GET_def do_download_def no_id_request_def fresh_response_def
      addRawHeader_def setResponseCode_def)

text \<open>
  Claim C7, as the code has it: \<open>process_negotiation\<close> never compares a value with
  the lists of \<open>do_choose_protocols\<close>. For every request that carries the arguments
  \<open>cipher\<close>, \<open>digest\<close> and \<open>cipher_mode\<close> with values that are well-formed UTF-8
  and that the standard output can print, whatever these values are, it raises no
  exception and records the three values in the attributes \<open>CIPHER\<close>, \<open>DIGEST\<close> and
  \<open>CIPHER_MODE\<close> of the server, from where \<open>cipher\<close> reads them; every other
  attribute, the sessions among them, stays as it was.
\<close>

theorem process_negotiation_records:
  assumes "args req = Some a" "a ''cipher'' = Some (c # cs)" "a ''digest'' = Some (d # ds)"
    "a ''cipher_mode'' = Some (m # ms)"
    "utf8_valid c" "utf8_valid d" "utf8_valid m"
    "stdout_encodes env (suite_text c d m)"
  shows "process_negotiation env srv req =
           (srv\<lparr> CIPHER := Some c, DIGEST := Some d, CIPHER_MODE := Some m \<rparr>, None)"
  using assms
  by (simp add: process_negotiation_def args_first_utf8_def args_first_def decode_utf8_def
      Let_def)

text \<open>
  Against claim C7 as stated (a value outside the lists is rejected): a suite of three
  values that \<open>do_choose_protocols\<close> does not list is recorded without an error.
\<close>

theorem process_negotiation_counterexample:
  "protocols = [(''cipher'', [''AES'', ''3DEs'']), (''digests'', [''SHA512'', ''BLAKE2'']),
                (''cipher_mode'', [''CBC'', ''OFB''])]
   \<and> process_negotiation sample_env sample_server odd_suite_request =
       (sample_server\<lparr> CIPHER := Some ''ROT13'', DIGEST := Some ''CRC'',
                        CIPHER_MODE := Some ''ECB'' \<rparr>, None)
   \<and> sessions (fst (process_negotiation sample_env sample_server odd_suite_request)) = Map.empty"
  by (simp add: protocols_def process_negotiation_def odd_suite_request_def
      args_first_utf8_def args_first_def decode_utf8_def between_def suite_text_def
      Let_def sample_server_def sample_env_def)

theorem process_negotiation_records_witness:
  "args odd_suite_request =
     Some [''cipher'' \<mapsto> [''ROT13''], ''digest'' \<mapsto> [''CRC''], ''cipher_mode'' \<mapsto> [''ECB'']]
   \<and> utf8_valid ''ROT13'' \<and> utf8_valid ''CRC'' \<and> utf8_valid ''ECB''
   \<and> stdout_encodes sample_env (suite_text ''ROT13'' ''CRC'' ''ECB'')
   \<and> CIPHER (fst (process_negotiation sample_env sample_server odd_suite_request)) = Some ''ROT13''"
proof -
  let ?a = "[''cipher'' \<mapsto> [''ROT13''], ''digest'' \<mapsto> [''CRC''], ''cipher_mode'' \<mapsto> [''ECB'']]"
  have 1: "args odd_suite_request = Some ?a" by (simp add: odd_suite_request_def)
  have 2: "?a ''cipher'' = Some (''ROT13'' # [])" by simp
  have 3: "?a ''digest'' = Some (''CRC'' # [])" by simp
  have 4: "?a ''cipher_mode'' = Some (''ECB'' # [])" by simp
  have 5: "utf8_valid ''ROT13''" by (simp add: between_def)
  have 6: "utf8_valid ''CRC''" by (simp add: between_def)
  have 7: "utf8_valid ''ECB''" by (simp add: between_def)
  have 8: "stdout_encodes sample_env (suite_text ''ROT13'' ''CRC'' ''ECB'')"
    by (simp add: sample_env_def suite_text_def between_def)
  from process_negotiation_records[OF 1 2 3 4 5 6 7 8, of sample_server] 1 5 6 7 8
  show ?thesis by simp
qed

text \<open>
  A value that is not UTF-8 stops the negotiation with \<open>UnicodeDecodeError\<close>, what was
  assigned before it staying assigned.
\<close>

lemma process_negotiation_undecodable:
  "process_negotiation sample_env sample_server undecodable_suite_request =
     (sample_server, Some UnicodeDecodeError)"
  by (simp add: process_negotiation_def undecodable_suite_request_def args_first_utf8_def
      args_first_def decode_utf8_def between_def)

text \<open>\<open>cipher\<close> depends on the server through four attributes only.\<close>

lemma cipher_reads_server_fields:
  "shared_key s1 = shared_key s2 \<Longrightarrow> CIPHER s1 = CIPHER s2 \<Longrightarrow> DIGEST s1 = DIGEST s2 \<Longrightarrow>
     CIPHER_MODE s1 = CIPHER_MODE s2 \<Longrightarrow>
     cipher env s1 rsp message tag = cipher env s2 rsp message tag"
  by (simp add: cipher_def cong: option.case_cong sum.case_cong if_cong)

text \<open>
  Claim C10, as the code has it: a call of \<open>do_public_key\<close> whose request carries a
  \<open>public_key\<close> argument that loads as a public key, and with which the key exchange
  succeeds, puts into \<open>self.sessions\<close>, under the freshly generated session id (one
  that the map does not hold yet), the new key pair of the server and the shared
  secret computed from the private key and the client's public key, and keeps every
  session the map held. Every call, this one or a failing one, leaves \<open>shared_key\<close>,
  \<open>CIPHER\<close>, \<open>DIGEST\<close> and \<open>CIPHER_MODE\<close> of the server as they were, and
  \<open>cipher\<close> gives the same result on two servers that agree on these four attributes,
  whatever their sessions hold.
\<close>

theorem do_public_key_session_only:
  "(\<forall>a pem pems client_public_key private_key public_key secret.
       args req = Some a \<and> a ''public_key'' = Some (pem # pems)
       \<and> load_pem_public_key env pem = Some client_public_key
       \<and> new_keys = (private_key, public_key)
       \<and> exchange env private_key client_public_key = Inr secret
       \<and> sessionid \<notin> dom (sessions srv) \<longrightarrow>
       sessions (fst (do_public_key env srv req rsp sessionid new_keys)) =
         (sessions srv)(sessionid \<mapsto>
            \<lparr> session_public_key = public_key, session_private_key = private_key,
              session_shared_key = secret \<rparr>)
       \<and> sessions srv \<subseteq>\<^sub>m sessions (fst (do_public_key env srv req rsp sessionid new_keys)))
   \<and> shared_key (fst (do_public_key env srv req rsp sessionid new_keys)) = shared_key srv
   \<and> CIPHER (fst (do_public_key env srv req rsp sessionid new_keys)) = CIPHER srv
   \<and> DIGEST (fst (do_public_key env srv req rsp sessionid new_keys)) = DIGEST srv
   \<and> CIPHER_MODE (fst (do_public_key env srv req rsp sessionid new_keys)) = CIPHER_MODE srv
   \<and> (\<forall>srv'. shared_key srv' = shared_key srv \<and> CIPHER srv' = CIPHER srv
          \<and> DIGEST srv' = DIGEST srv \<and> CIPHER_MODE srv' = CIPHER_MODE srv \<longrightarrow>
          cipher env srv' rsp' message tag = cipher env srv rsp' message tag)"
proof -
  have s: "sessions (fst (do_public_key env srv req rsp sessionid new_keys)) =
         (sessions srv)(sessionid \<mapsto>
            \<lparr> session_public_key = public_key, session_private_key = private_key,
              session_shared_key = secret \<rparr>)
       \<and> sessions srv \<subseteq>\<^sub>m sessions (fst (do_public_key env srv req rsp sessionid new_keys))"
    if "args req = Some a \<and> a ''public_key'' = Some (pem # pems)
       \<and> load_pem_public_key env pem = Some client_public_key
       \<and> new_keys = (private_key, public_key)
       \<and> exchange env private_key client_public_key = Inr secret
       \<and> sessionid \<notin> dom (sessions srv)"
    for a pem pems client_public_key private_key public_key secret
  proof -
    from that have e: "sessions (fst (do_public_key env srv req rsp sessionid new_keys)) =
         (sessions srv)(sessionid \<mapsto>
            \<lparr> session_public_key = public_key, session_private_key = private_key,
              session_shared_key = secret \<rparr>)"
      by (simp add: do_public_key_def args_first_def Let_def)
    from that have "sessions srv \<subseteq>\<^sub>m (sessions srv)(sessionid \<mapsto>
            \<lparr> session_public_key = public_key, session_private_key = private_key,
              session_shared_key = secret \<rparr>)"
      by (auto simp: map_le_def)
    with e show ?thesis by simp
  qed
  have c: "cipher env srv' rsp' message tag = cipher env srv rsp' message tag"
    if "shared_key srv' = shared_key srv \<and> CIPHER srv' = CIPHER srv
          \<and> DIGEST srv' = DIGEST srv \<and> CIPHER_MODE srv' = CIPHER_MODE srv" for srv'
    using that cipher_reads_server_fields by blast
  from s c do_public_key_frame[of env srv req rsp sessionid new_keys] show ?thesis
    by blast
qed

text \<open>
  Against claim C10 as stated (every call inserts a session): a request without the
  \<open>public_key\<close> argument raises \<open>KeyError\<close> and the server, its sessions included,
  is as before.
\<close>

theorem do_public_key_counterexample:
  "do_public_key sample_env sample_server no_key_request fresh_response ''sid'' (''priv'', ''pub'')
     = (sample_server, fresh_response, Inl KeyError)"
  by (simp add: do_public_key_def no_key_request_def args_first_def)

theorem do_public_key_session_only_witness:
  "args key_request = Some [''public_key'' \<mapsto> [''cpk'']]
   \<and> load_pem_public_key sample_env ''cpk'' = Some ''cpk''
   \<and> exchange sample_env ''priv'' ''cpk'' = Inr ''privcpk''
   \<and> ''sid'' \<notin> dom (sessions sample_server)
   \<and> sessions (fst (do_public_key sample_env sample_server key_request fresh_response ''sid''
                      (''priv'', ''pub''))) ''sid''
       = Some \<lparr> session_public_key = ''pub'', session_private_key = ''priv'',
                session_shared_key = ''privcpk'' \<rparr>
   \<and> cipher sample_env (fst (do_public_key sample_env sample_server key_request fresh_response
          ''sid'' (''priv'', ''pub''))) fresh_response ''hello'' None
       = cipher sample_env sample_server fresh_response ''hello'' None"
proof -
  let ?a = "[''public_key'' \<mapsto> [''cpk'']]"
  let ?r = "do_public_key sample_env sample_server key_request fresh_response ''sid''
              (''priv'', ''pub'')"
  note t = do_public_key_session_only[where req = key_request and env = sample_env
      and new_keys = "(''priv'', ''pub'')" and srv = sample_server and sessionid = "''sid''"
      and rsp = fresh_response and rsp' = fresh_response and message = "''hello''"
      and tag = None]
  have 1: "args key_request = Some ?a" by (simp add: key_request_def)
  have 2: "?a ''public_key'' = Some (''cpk'' # [])" by simp
  have 3: "load_pem_public_key sample_env ''cpk'' = Some ''cpk''" by (simp add: sample_env_def)
  have 4: "exchange sample_env ''priv'' ''cpk'' = Inr ''privcpk''" by (simp add: sample_env_def)
  have 5: "''sid'' \<notin> dom (sessions sample_server)" by (simp add: sample_server_def)
  from t 1 2 3 4 5 have "sessions (fst ?r) =
      (sessions sample_server)(''sid'' \<mapsto>
            \<lparr> session_public_key = ''pub'', session_private_key = ''priv'',
              session_shared_key = ''privcpk'' \<rparr>)"
    by blast
  then have s: "sessions (fst ?r) ''sid'' =
      Some \<lparr> session_public_key = ''pub'', session_private_key = ''priv'',
                session_shared_key = ''privcpk'' \<rparr>"
    by simp
  from t have "cipher sample_env (fst ?r) fresh_response ''hello'' None
       = cipher sample_env sample_server fresh_response ''hello'' None"
    by blast
  with 1 3 4 5 s show ?thesis by simp
qed

text \<open>
  A key that loads but is no key of the server's group makes the exchange raise, and
  no session is written.
\<close>

lemma do_public_key_foreign_key:
  "do_public_key sample_env sample_server foreign_key_request fresh_response ''sid''
      (''priv'', ''pub'')
     = (sample_server, fresh_response, Inl TypeError)"
  by (simp add: do_public_key_def foreign_key_request_def args_first_def sample_env_def)

end
